theory Spec2Isabelle
  imports Complex_Main
begin

section \<open>Numbers and failures\<close>

text \<open>
  The loan tools of \<^verbatim>\<open>src/tools/loan_tools.py\<close> compute with Python numbers. Amounts,
  percentages and scores are modelled as exact rationals (type \<open>rat\<close>), tenures as
  integers. Rounding, overflow, infinities and NaN of binary floating point are outside
  this model; every comparison and every branch of the source is kept.

  The only exception the arithmetic of the tools can raise on such numbers is
  \<^verbatim>\<open>ZeroDivisionError\<close>: from \<^verbatim>\<open>/\<close> with a zero divisor and from \<^verbatim>\<open>**\<close> with base zero
  and a negative exponent.
\<close>

datatype py_error = ZeroDivisionError

definition py_div :: "rat \<Rightarrow> rat \<Rightarrow> py_error + rat" where
  "py_div a b = (if b = 0 then Inl ZeroDivisionError else Inr (a / b))"

definition py_pow :: "rat \<Rightarrow> int \<Rightarrow> py_error + rat" where
  "py_pow x n =
     (if 0 \<le> n then Inr (x ^ nat n)
      else if x = 0 then Inl ZeroDivisionError
      else Inr (1 / x ^ nat (- n)))"

text \<open>
  The reducing-balance expression that the source writes inline at every place it needs
  an instalment:
  \<^verbatim>\<open>(p * monthly_rate * (1 + monthly_rate) ** n) / ((1 + monthly_rate) ** n - 1)\<close>.
  The power is evaluated first (both occurrences have the same arguments), then the
  division.
\<close>

definition emi_formula :: "rat \<Rightarrow> rat \<Rightarrow> int \<Rightarrow> py_error + rat" where
  "emi_formula amount monthly_rate tenure_months =
     (case py_pow (1 + monthly_rate) tenure_months of
        Inl e \<Rightarrow> Inl e
      | Inr growth \<Rightarrow> py_div (amount * monthly_rate * growth) (growth - 1))"

section \<open>calculate_emi\<close>

text \<open>
  The tool returns text. The model keeps the numbers that the text interpolates
  (\<open>EmiCalculation\<close>) and the fixed message of the \<^verbatim>\<open>except\<close> branch (\<open>EmiUnable\<close>:
  "Unable to calculate EMI. Please check the input parameters.").
\<close>

record emi_breakdown =
  eb_loan_amount :: rat
  eb_interest_rate :: rat
  eb_tenure_months :: int
  eb_emi :: rat
  eb_total_amount :: rat
  eb_total_interest :: rat

datatype emi_output = EmiCalculation emi_breakdown | EmiUnable

definition calculate_emi :: "rat \<Rightarrow> rat \<Rightarrow> int \<Rightarrow> emi_output" where
  "calculate_emi loan_amount interest_rate tenure_months =
     (let monthly_rate = (interest_rate / 100) / 12 in
      case emi_formula loan_amount monthly_rate tenure_months of
        Inl e \<Rightarrow> EmiUnable
      | Inr emi \<Rightarrow>
          (let total_amount = emi * of_int tenure_months;
               total_interest = total_amount - loan_amount
           in EmiCalculation
                \<lparr>eb_loan_amount = loan_amount, eb_interest_rate = interest_rate,
                 eb_tenure_months = tenure_months, eb_emi = emi,
                 eb_total_amount = total_amount, eb_total_interest = total_interest\<rparr>))"

section \<open>The customer profile\<close>

text \<open>
  \<^verbatim>\<open>customer_data\<close> is the dictionary kept in the session state. A key that is absent
  is \<open>None\<close>; \<open>dict_get\<close> is \<^verbatim>\<open>customer_data.get(key, default)\<close>. Only the keys read by
  the loan calculations are modelled, each at the type the calculations use it at:
  numbers for amounts, rates, scores and years, an integer for the tenure, booleans for
  the flags and strings for the two enumerations. A dictionary that holds a value of
  another type under one of these keys is outside the model.
\<close>

record customer_data =
  cd_loan_offer :: "rat option"
  cd_interest_rate :: "rat option"
  cd_tenure :: "int option"
  cd_processing_fee :: "rat option"
  cd_account_age_years :: "rat option"
  cd_is_salary_account :: "bool option"
  cd_avg_monthly_balance :: "rat option"
  cd_credit_score :: "rat option"
  cd_loan_history_score :: "string option"
  cd_monthly_income :: "rat option"
  cd_employment_type :: "string option"
  cd_job_stability_years :: "rat option"
  cd_is_festive_season :: "bool option"
  cd_has_existing_loans :: "bool option"

definition dict_get :: "'a option \<Rightarrow> 'a \<Rightarrow> 'a" where
  "dict_get v d = (case v of None \<Rightarrow> d | Some x \<Rightarrow> x)"

text \<open>The empty dictionary \<^verbatim>\<open>{}\<close>, the default of \<^verbatim>\<open>st.session_state.get\<close>.\<close>

definition empty_customer_data :: customer_data where
  "empty_customer_data =
     \<lparr>cd_loan_offer = None, cd_interest_rate = None, cd_tenure = None,
      cd_processing_fee = None, cd_account_age_years = None,
      cd_is_salary_account = None, cd_avg_monthly_balance = None,
      cd_credit_score = None, cd_loan_history_score = None,
      cd_monthly_income = None, cd_employment_type = None,
      cd_job_stability_years = None, cd_is_festive_season = None,
      cd_has_existing_loans = None\<rparr>"

section \<open>calculate_loan_savings\<close>







section \<open>calculate_dynamic_pricing\<close>

text \<open>
  The three variables that the scoring pass updates: \<^verbatim>\<open>rate_adjustment\<close> (percentage
  points), \<^verbatim>\<open>processing_fee_multiplier\<close> and \<^verbatim>\<open>max_loan_multiplier\<close>. Each factor
  group of the source is one function on this state, with the source's branch order.
\<close>

record factors =
  rate_adjustment :: rat
  processing_fee_multiplier :: rat
  max_loan_multiplier :: rat

definition initial_factors :: factors where
  "initial_factors =
     \<lparr>rate_adjustment = 0, processing_fee_multiplier = 1, max_loan_multiplier = 1\<rparr>"

text \<open>Customer relationship factors (lines 312 to 336): account age, salary account, balance.\<close>

definition account_age_factor :: "customer_data \<Rightarrow> factors \<Rightarrow> factors" where
  "account_age_factor cd st =
     (let account_age_years = dict_get (cd_account_age_years cd) 0 in
      if account_age_years \<ge> 5 then st\<lparr>rate_adjustment := rate_adjustment st - 0.5\<rparr>
      else if account_age_years \<ge> 2 then st\<lparr>rate_adjustment := rate_adjustment st - 0.25\<rparr>
      else if account_age_years < 1 then st\<lparr>rate_adjustment := rate_adjustment st + 0.25\<rparr>
      else st)"

definition salary_account_factor :: "customer_data \<Rightarrow> factors \<Rightarrow> factors" where
  "salary_account_factor cd st =
     (let is_salary_account = dict_get (cd_is_salary_account cd) False in
      if is_salary_account
      then st\<lparr>rate_adjustment := rate_adjustment st - 0.3,
              processing_fee_multiplier := processing_fee_multiplier st * 0.8\<rparr>
      else st)"

definition balance_factor :: "customer_data \<Rightarrow> factors \<Rightarrow> factors" where
  "balance_factor cd st =
     (let avg_monthly_balance = dict_get (cd_avg_monthly_balance cd) 0 in
      if avg_monthly_balance \<ge> 100000
      then st\<lparr>rate_adjustment := rate_adjustment st - 0.4,
              max_loan_multiplier := max_loan_multiplier st * 1.2\<rparr>
      else if avg_monthly_balance \<ge> 50000
      then st\<lparr>rate_adjustment := rate_adjustment st - 0.2,
              max_loan_multiplier := max_loan_multiplier st * 1.1\<rparr>
      else if avg_monthly_balance < 10000
      then st\<lparr>rate_adjustment := rate_adjustment st + 0.3\<rparr>
      else st)"

text \<open>Credit profile factors (lines 340 to 363): credit score, loan history.\<close>

definition credit_score_factor :: "customer_data \<Rightarrow> factors \<Rightarrow> factors" where
  "credit_score_factor cd st =
     (let credit_score = dict_get (cd_credit_score cd) 750 in
      if credit_score \<ge> 800
      then st\<lparr>rate_adjustment := rate_adjustment st - 0.5,
              max_loan_multiplier := max_loan_multiplier st * 1.3\<rparr>
      else if credit_score \<ge> 750
      then st\<lparr>rate_adjustment := rate_adjustment st - 0.25\<rparr>
      else if credit_score \<ge> 700
      then st\<lparr>rate_adjustment := rate_adjustment st + 0.0\<rparr>
      else if credit_score \<ge> 650
      then st\<lparr>rate_adjustment := rate_adjustment st + 0.5\<rparr>
      else st\<lparr>rate_adjustment := rate_adjustment st + 1.0,
              max_loan_multiplier := max_loan_multiplier st * 0.8\<rparr>)"

definition loan_history_factor :: "customer_data \<Rightarrow> factors \<Rightarrow> factors" where
  "loan_history_factor cd st =
     (let loan_history_score = dict_get (cd_loan_history_score cd) ''good'' in
      if loan_history_score = ''excellent''
      then st\<lparr>rate_adjustment := rate_adjustment st - 0.3,
              processing_fee_multiplier := processing_fee_multiplier st * 0.7\<rparr>
      else if loan_history_score = ''good''
      then st\<lparr>rate_adjustment := rate_adjustment st - 0.1\<rparr>
      else if loan_history_score = ''poor''
      then st\<lparr>rate_adjustment := rate_adjustment st + 0.5\<rparr>
      else st)"

text \<open>
  Income and employment factors (lines 367 to 395): monthly income, employment type, job
  stability.
\<close>

definition income_factor :: "customer_data \<Rightarrow> factors \<Rightarrow> factors" where
  "income_factor cd st =
     (let monthly_income = dict_get (cd_monthly_income cd) 0 in
      if monthly_income \<ge> 100000
      then st\<lparr>rate_adjustment := rate_adjustment st - 0.2,
              max_loan_multiplier := max_loan_multiplier st * 1.4\<rparr>
      else if monthly_income \<ge> 75000
      then st\<lparr>rate_adjustment := rate_adjustment st - 0.1,
              max_loan_multiplier := max_loan_multiplier st * 1.2\<rparr>
      else if monthly_income < 30000
      then st\<lparr>rate_adjustment := rate_adjustment st + 0.3,
              max_loan_multiplier := max_loan_multiplier st * 0.9\<rparr>
      else st)"

definition employment_factor :: "customer_data \<Rightarrow> factors \<Rightarrow> factors" where
  "employment_factor cd st =
     (let employment_type = dict_get (cd_employment_type cd) ''salaried'' in
      if employment_type = ''government''
      then st\<lparr>rate_adjustment := rate_adjustment st - 0.4\<rparr>
      else if employment_type = ''mnc''
      then st\<lparr>rate_adjustment := rate_adjustment st - 0.2\<rparr>
      else if employment_type = ''self_employed''
      then st\<lparr>rate_adjustment := rate_adjustment st + 0.3\<rparr>
      else if employment_type = ''business_owner''
      then st\<lparr>rate_adjustment := rate_adjustment st + 0.2\<rparr>
      else st)"

definition job_stability_factor :: "customer_data \<Rightarrow> factors \<Rightarrow> factors" where
  "job_stability_factor cd st =
     (let job_stability_years = dict_get (cd_job_stability_years cd) 2 in
      if job_stability_years \<ge> 3 then st\<lparr>rate_adjustment := rate_adjustment st - 0.1\<rparr>
      else if job_stability_years < 1 then st\<lparr>rate_adjustment := rate_adjustment st + 0.2\<rparr>
      else st)"

text \<open>Loan amount and tenure factors (lines 399 to 411), on the resolved request.\<close>

definition loan_amount_factor :: "rat \<Rightarrow> factors \<Rightarrow> factors" where
  "loan_amount_factor base_loan_amount st =
     (if base_loan_amount \<ge> 2000000 then st\<lparr>rate_adjustment := rate_adjustment st - 0.25\<rparr>
      else if base_loan_amount \<ge> 1000000
      then st\<lparr>rate_adjustment := rate_adjustment st - 0.15\<rparr>
      else if base_loan_amount < 200000
      then st\<lparr>rate_adjustment := rate_adjustment st + 0.2\<rparr>
      else st)"

definition tenure_factor :: "int \<Rightarrow> factors \<Rightarrow> factors" where
  "tenure_factor base_tenure st =
     (if base_tenure \<le> 12 then st\<lparr>rate_adjustment := rate_adjustment st - 0.1\<rparr>
      else if base_tenure \<ge> 60 then st\<lparr>rate_adjustment := rate_adjustment st + 0.2\<rparr>
      else st)"

text \<open>Market factors (lines 415 to 424): festive season, no existing loans.\<close>

definition festive_season_factor :: "customer_data \<Rightarrow> factors \<Rightarrow> factors" where
  "festive_season_factor cd st =
     (let is_festive_season = dict_get (cd_is_festive_season cd) False in
      if is_festive_season
      then st\<lparr>rate_adjustment := rate_adjustment st - 0.15,
              processing_fee_multiplier := processing_fee_multiplier st * 0.9\<rparr>
      else st)"

definition existing_loans_factor :: "customer_data \<Rightarrow> factors \<Rightarrow> factors" where
  "existing_loans_factor cd st =
     (let has_existing_loans = dict_get (cd_has_existing_loans cd) False in
      if \<not> has_existing_loans then st\<lparr>rate_adjustment := rate_adjustment st - 0.1\<rparr>
      else st)"

text \<open>The scoring pass: the twelve factor groups in the order of the source.\<close>

definition pricing_factors :: "customer_data \<Rightarrow> rat \<Rightarrow> int \<Rightarrow> factors" where
  "pricing_factors cd base_loan_amount base_tenure =
     existing_loans_factor cd
      (festive_season_factor cd
        (tenure_factor base_tenure
          (loan_amount_factor base_loan_amount
            (job_stability_factor cd
              (employment_factor cd
                (income_factor cd
                  (loan_history_factor cd
                    (credit_score_factor cd
                      (balance_factor cd
                        (salary_account_factor cd
                          (account_age_factor cd initial_factors)))))))))))"

text \<open>The resolution of the request against the profile (lines 298 to 300).\<close>

definition resolve_loan_amount :: "customer_data \<Rightarrow> rat \<Rightarrow> rat" where
  "resolve_loan_amount cd loan_amount =
     (if loan_amount > 0 then loan_amount else dict_get (cd_loan_offer cd) 0)"

definition resolve_tenure :: "customer_data \<Rightarrow> int \<Rightarrow> int" where
  "resolve_tenure cd requested_tenure =
     (if requested_tenure > 0 then requested_tenure else dict_get (cd_tenure cd) 12)"

definition resolve_interest_rate :: "customer_data \<Rightarrow> rat" where
  "resolve_interest_rate cd = dict_get (cd_interest_rate cd) 12.0"

text \<open>The value of \<^verbatim>\<open>rate_adjustment\<close> after the scoring pass, for a profile and a request.\<close>

definition pricing_rate_adjustment :: "customer_data \<Rightarrow> rat \<Rightarrow> int \<Rightarrow> rat" where
  "pricing_rate_adjustment cd loan_amount requested_tenure =
     rate_adjustment
       (pricing_factors cd (resolve_loan_amount cd loan_amount)
          (resolve_tenure cd requested_tenure))"

datatype explanation_factor =
    ExcellentBankingRelationship
  | StrongCreditProfile
  | SalaryAccountHolder
  | HighIncomeBracket
  | RiskFactorsConsidered

definition explanation :: "customer_data \<Rightarrow> rat \<Rightarrow> explanation_factor list" where
  "explanation cd adjustment =
     (if adjustment < - 0.1 then [ExcellentBankingRelationship] else []) @
     (if dict_get (cd_credit_score cd) 750 \<ge> 750 then [StrongCreditProfile] else []) @
     (if dict_get (cd_is_salary_account cd) False then [SalaryAccountHolder] else []) @
     (if dict_get (cd_monthly_income cd) 0 \<ge> 75000 then [HighIncomeBracket] else []) @
     (if adjustment > 0.1 then [RiskFactorsConsidered] else [])"

text \<open>
  The numbers and flags that the pricing text interpolates: the customised offer, the
  rate adjustment, the key factors, the financial impact and the special benefits.
\<close>

record pricing_result =
  pr_final_interest_rate :: rat
  pr_base_interest_rate :: rat
  pr_rate_adjustment :: rat
  pr_final_emi :: rat
  pr_final_processing_fee :: rat
  pr_max_eligible_amount :: rat
  pr_explanation_factors :: "explanation_factor list"
  pr_monthly_difference :: rat
  pr_total_difference :: rat
  pr_base_tenure :: int
  pr_processing_fee_multiplier :: rat
  pr_max_loan_multiplier :: rat
  pr_is_salary_account :: bool
  pr_is_festive_season :: bool

text \<open>
  \<open>PricingMissingData\<close> is the early return "Unable to calculate dynamic pricing. Missing
  essential customer data."; \<open>PricingUnable\<close> is the message of the \<^verbatim>\<open>except\<close> branch,
  "Unable to calculate personalized pricing at the moment. ...".
\<close>

datatype pricing_output =
    PricingMissingData
  | PricingAnalysis pricing_result
  | PricingUnable

definition calculate_dynamic_pricing :: "customer_data \<Rightarrow> rat \<Rightarrow> int \<Rightarrow> pricing_output" where
  "calculate_dynamic_pricing cd loan_amount requested_tenure =
     (let base_loan_amount = resolve_loan_amount cd loan_amount;
          base_tenure = resolve_tenure cd requested_tenure;
          base_interest_rate = resolve_interest_rate cd
      in if base_loan_amount = 0 \<or> base_interest_rate = 0 then PricingMissingData
         else
           (let st = pricing_factors cd base_loan_amount base_tenure;
                final_interest_rate =
                  max 8.0 (min 18.0 (base_interest_rate + rate_adjustment st));
                max_eligible_amount = base_loan_amount * max_loan_multiplier st;
                base_processing_fee =
                  dict_get (cd_processing_fee cd) (base_loan_amount * 0.02);
                final_processing_fee = base_processing_fee * processing_fee_multiplier st;
                monthly_rate = (final_interest_rate / 100) / 12
            in case emi_formula base_loan_amount monthly_rate base_tenure of
                 Inl e \<Rightarrow> PricingUnable
               | Inr final_emi \<Rightarrow>
                   (let base_monthly_rate = (base_interest_rate / 100) / 12 in
                    case emi_formula base_loan_amount base_monthly_rate base_tenure of
                      Inl e \<Rightarrow> PricingUnable
                    | Inr base_emi \<Rightarrow>
                        (let monthly_difference = final_emi - base_emi;
                             total_difference = monthly_difference * of_int base_tenure
                         in PricingAnalysis
                              \<lparr>pr_final_interest_rate = final_interest_rate,
                               pr_base_interest_rate = base_interest_rate,
                               pr_rate_adjustment = rate_adjustment st,
                               pr_final_emi = final_emi,
                               pr_final_processing_fee = final_processing_fee,
                               pr_max_eligible_amount = max_eligible_amount,
                               pr_explanation_factors = explanation cd (rate_adjustment st),
                               pr_monthly_difference = monthly_difference,
                               pr_total_difference = total_difference,
                               pr_base_tenure = base_tenure,
                               pr_processing_fee_multiplier = processing_fee_multiplier st,
                               pr_max_loan_multiplier = max_loan_multiplier st,
                               pr_is_salary_account =
                                 dict_get (cd_is_salary_account cd) False,
                               pr_is_festive_season =
                                 dict_get (cd_is_festive_season cd) False\<rparr>))))"

section \<open>Reference values and example profiles\<close>



text \<open>
  The contribution of one factor group to \<^verbatim>\<open>rate_adjustment\<close>: what the group adds
  when it is applied to the initial state.
\<close>

definition rate_delta :: "(factors \<Rightarrow> factors) \<Rightarrow> rat" where
  "rate_delta f = rate_adjustment (f initial_factors)"

text \<open>
  The profile of the specification's worked example, two profiles at the extremes of
  the credit score, a profile without an interest rate, and a profile whose rate makes
  \<open>1 + monthly_rate\<close> equal to \<open>-1\<close>. Every key that is not listed is absent.
\<close>

definition example_profile :: customer_data where
  "example_profile =
     empty_customer_data
       \<lparr>cd_loan_offer := Some 500000, cd_interest_rate := Some 10.5, cd_tenure := Some 24,
        cd_account_age_years := Some 6, cd_is_salary_account := Some True,
        cd_avg_monthly_balance := Some 120000, cd_credit_score := Some 820,
        cd_monthly_income := Some 90000, cd_employment_type := Some ''salaried''\<rparr>"

definition worst_case_profile :: customer_data where
  "worst_case_profile =
     empty_customer_data
       \<lparr>cd_loan_offer := Some 100000, cd_interest_rate := Some 17, cd_tenure := Some 60,
        cd_credit_score := Some 300, cd_monthly_income := Some 0\<rparr>"

definition best_case_profile :: customer_data where
  "best_case_profile =
     empty_customer_data
       \<lparr>cd_loan_offer := Some 500000, cd_interest_rate := Some 8.5, cd_tenure := Some 24,
        cd_avg_monthly_balance := Some 500000, cd_credit_score := Some 850\<rparr>"

definition no_rate_profile :: customer_data where
  "no_rate_profile =
     empty_customer_data\<lparr>cd_loan_offer := Some 500000, cd_tenure := Some 24\<rparr>"


section \<open>Properties of the instalment formula\<close>

lemma power_ne_one:
  fixes x :: rat
  assumes "x \<noteq> 1" "x \<noteq> - 1" "0 < n"
  shows "x ^ n \<noteq> 1"
proof
  assume "x ^ n = 1"
  then have e: "\<bar>x\<bar> ^ n = 1" by (simp add: power_abs [symmetric])
  have "\<bar>x\<bar> = 1"
  proof (rule ccontr)
    assume "\<bar>x\<bar> \<noteq> 1"
    then consider "\<bar>x\<bar> < 1" | "1 < \<bar>x\<bar>" by linarith
    then show False
    proof cases
      case 1
      then have "\<bar>x\<bar> ^ n < 1" using assms(3) by (simp add: power_less_one_iff)
      with e show False by simp
    next
      case 2
      then have "1 < \<bar>x\<bar> ^ n" using assms(3) by (rule one_less_power)
      with e show False by simp
    qed
  qed
  with assms show False by (auto simp: abs_if split: if_splits)
qed

lemma py_pow_growth:
  assumes "x \<noteq> 0" "x \<noteq> 1" "x \<noteq> - 1" "n \<noteq> 0"
  shows "\<exists>g. py_pow x n = Inr g \<and> g \<noteq> 1"
proof (cases "0 \<le> n")
  case True
  with assms have "0 < nat n" by simp
  from power_ne_one [OF assms(2,3) this] True show ?thesis by (simp add: py_pow_def)
next
  case False
  then have "0 < nat (- n)" by simp
  from power_ne_one [OF assms(2,3) this] False assms(1) show ?thesis
    by (simp add: py_pow_def)
qed

lemma emi_formula_fails_iff:
  "(\<exists>e. emi_formula a m n = Inl e) \<longleftrightarrow>
     n = 0 \<or> m = 0 \<or> (m = - 2 \<and> even n) \<or> (m = - 1 \<and> n < 0)"
proof -
  consider (z) "n = 0" | (one) "n \<noteq> 0" "m = 0" | (neg) "n \<noteq> 0" "m = - 2"
    | (zero) "n \<noteq> 0" "m = - 1" | (gen) "n \<noteq> 0" "m \<noteq> 0" "m \<noteq> - 2" "m \<noteq> - 1"
    by blast
  then show ?thesis
  proof cases
    case z
    then show ?thesis by (simp add: emi_formula_def py_pow_def py_div_def)
  next
    case one
    then show ?thesis by (simp add: emi_formula_def py_pow_def py_div_def)
  next
    case neg
    have p: "((- 1 :: rat) ^ k = 1) = even k" for k
      by (cases "even k") simp_all
    from neg show ?thesis
      by (auto simp add: emi_formula_def py_pow_def py_div_def p even_nat_iff)
  next
    case zero
    then show ?thesis
      by (auto simp add: emi_formula_def py_pow_def py_div_def power_0_left)
  next
    case gen
    then have "1 + m \<noteq> 0" "1 + m \<noteq> 1" "1 + m \<noteq> - 1" by auto
    from py_pow_growth [OF this gen(1)] obtain g where "py_pow (1 + m) n = Inr g" "g \<noteq> 1"
      by blast
    with gen show ?thesis by (simp add: emi_formula_def py_div_def)
  qed
qed





lemma emi_formula_ok:
  assumes "n \<noteq> 0" "m \<noteq> 0" "\<not> (m = - 2 \<and> even n)" "\<not> (m = - 1 \<and> n < 0)"
  shows "\<exists>e. emi_formula a m n = Inr e"
proof (cases "emi_formula a m n")
  case (Inl e)
  then have "\<exists>e. emi_formula a m n = Inl e" by blast
  with assms show ?thesis unfolding emi_formula_fails_iff by blast
next
  case (Inr e)
  then show ?thesis by blast
qed


section \<open>Properties of calculate_emi\<close>



text \<open>
  Claim C2, as stated, at principal 120000 and tenure 12: a zero annual rate would give a
  breakdown with EMI \<open>120000 / 12\<close>. The source has no branch for a zero monthly rate;
  the denominator \<open>(1 + 0) ** 12 - 1\<close> is zero, the division raises and the tool returns
  its fixed message.
\<close>

theorem emi_zero_rate_counterexample: "calculate_emi 120000 0 12 = EmiUnable"
  by (simp add: calculate_emi_def emi_formula_def py_pow_def py_div_def)

text \<open>
  Claim C2, amended. For every principal and every tenure, the EMI calculation at annual
  rate exactly 0 returns no breakdown: its output is the fixed message "Unable to
  calculate EMI. Please check the input parameters.".
\<close>

theorem emi_zero_rate_unable: "calculate_emi p 0 t = EmiUnable"
  by (simp add: calculate_emi_def emi_formula_def py_pow_def py_div_def)



section \<open>Properties of the scoring pass\<close>

lemmas factor_defs =
  account_age_factor_def salary_account_factor_def balance_factor_def
  credit_score_factor_def loan_history_factor_def income_factor_def
  employment_factor_def job_stability_factor_def loan_amount_factor_def
  tenure_factor_def festive_season_factor_def existing_loans_factor_def

lemma factor_adds:
  "rate_adjustment (account_age_factor cd st) = rate_adjustment st + rate_delta (account_age_factor cd)"
  "rate_adjustment (salary_account_factor cd st) = rate_adjustment st + rate_delta (salary_account_factor cd)"
  "rate_adjustment (balance_factor cd st) = rate_adjustment st + rate_delta (balance_factor cd)"
  "rate_adjustment (credit_score_factor cd st) = rate_adjustment st + rate_delta (credit_score_factor cd)"
  "rate_adjustment (loan_history_factor cd st) = rate_adjustment st + rate_delta (loan_history_factor cd)"
  "rate_adjustment (income_factor cd st) = rate_adjustment st + rate_delta (income_factor cd)"
  "rate_adjustment (employment_factor cd st) = rate_adjustment st + rate_delta (employment_factor cd)"
  "rate_adjustment (job_stability_factor cd st) = rate_adjustment st + rate_delta (job_stability_factor cd)"
  "rate_adjustment (loan_amount_factor a st) = rate_adjustment st + rate_delta (loan_amount_factor a)"
  "rate_adjustment (tenure_factor t st) = rate_adjustment st + rate_delta (tenure_factor t)"
  "rate_adjustment (festive_season_factor cd st) = rate_adjustment st + rate_delta (festive_season_factor cd)"
  "rate_adjustment (existing_loans_factor cd st) = rate_adjustment st + rate_delta (existing_loans_factor cd)"
  by (simp_all add: factor_defs rate_delta_def initial_factors_def Let_def)

lemma rate_adjustment_sum:
  "rate_adjustment (pricing_factors cd a t) =
     rate_delta (account_age_factor cd) + rate_delta (salary_account_factor cd)
     + rate_delta (balance_factor cd) + rate_delta (credit_score_factor cd)
     + rate_delta (loan_history_factor cd) + rate_delta (income_factor cd)
     + rate_delta (employment_factor cd) + rate_delta (job_stability_factor cd)
     + rate_delta (loan_amount_factor a) + rate_delta (tenure_factor t)
     + rate_delta (festive_season_factor cd) + rate_delta (existing_loans_factor cd)"
  unfolding pricing_factors_def factor_adds by (simp add: initial_factors_def)



lemma credit_update_other:
  "account_age_factor (cd\<lparr>cd_credit_score := x\<rparr>) = account_age_factor cd"
  "salary_account_factor (cd\<lparr>cd_credit_score := x\<rparr>) = salary_account_factor cd"
  "balance_factor (cd\<lparr>cd_credit_score := x\<rparr>) = balance_factor cd"
  "loan_history_factor (cd\<lparr>cd_credit_score := x\<rparr>) = loan_history_factor cd"
  "income_factor (cd\<lparr>cd_credit_score := x\<rparr>) = income_factor cd"
  "employment_factor (cd\<lparr>cd_credit_score := x\<rparr>) = employment_factor cd"
  "job_stability_factor (cd\<lparr>cd_credit_score := x\<rparr>) = job_stability_factor cd"
  "festive_season_factor (cd\<lparr>cd_credit_score := x\<rparr>) = festive_season_factor cd"
  "existing_loans_factor (cd\<lparr>cd_credit_score := x\<rparr>) = existing_loans_factor cd"
  "resolve_loan_amount (cd\<lparr>cd_credit_score := x\<rparr>) = resolve_loan_amount cd"
  "resolve_tenure (cd\<lparr>cd_credit_score := x\<rparr>) = resolve_tenure cd"
  by (simp_all add: factor_defs resolve_loan_amount_def resolve_tenure_def fun_eq_iff)

lemma credit_tier_delta:
  "rate_delta (credit_score_factor (cd\<lparr>cd_credit_score := Some s\<rparr>)) =
     (if s \<ge> 800 then - 0.5 else if s \<ge> 750 then - 0.25 else if s \<ge> 700 then 0
      else if s \<ge> 650 then 0.5 else 1)"
  by (simp add: credit_score_factor_def rate_delta_def initial_factors_def dict_get_def)

lemma credit_score_antitone:
  assumes "s \<le> s'"
  shows "pricing_rate_adjustment (cd\<lparr>cd_credit_score := Some s'\<rparr>) la rt
           \<le> pricing_rate_adjustment (cd\<lparr>cd_credit_score := Some s\<rparr>) la rt"
  unfolding pricing_rate_adjustment_def rate_adjustment_sum credit_update_other credit_tier_delta
  using assms by simp

lemma pricing_analysis_fields:
  assumes "calculate_dynamic_pricing cd la rt = PricingAnalysis res"
  shows "pr_final_interest_rate res =
           max 8 (min 18 (resolve_interest_rate cd + pricing_rate_adjustment cd la rt))"
    and "pr_base_interest_rate res = resolve_interest_rate cd"
    and "pr_rate_adjustment res = pricing_rate_adjustment cd la rt"
    and "resolve_loan_amount cd la \<noteq> 0" and "resolve_interest_rate cd \<noteq> 0"
  using assms
  by (auto simp add: calculate_dynamic_pricing_def pricing_rate_adjustment_def Let_def
        split: if_splits sum.splits)

lemma pricing_returns_analysis:
  assumes "resolve_loan_amount cd la \<noteq> 0" "resolve_interest_rate cd \<noteq> 0"
    and "resolve_tenure cd rt \<noteq> 0"
    and "\<not> (resolve_interest_rate cd = - 2400 \<and> even (resolve_tenure cd rt))"
    and "\<not> (resolve_interest_rate cd = - 1200 \<and> resolve_tenure cd rt < 0)"
  shows "\<exists>res. calculate_dynamic_pricing cd la rt = PricingAnalysis res"
proof -
  let ?a = "resolve_loan_amount cd la" and ?t = "resolve_tenure cd rt"
  let ?b = "resolve_interest_rate cd"
  let ?f = "max 8.0 (min 18.0 (?b + rate_adjustment (pricing_factors cd ?a ?t)))"
  have "0 < ?f / 100 / 12" by simp
  then have "?f / 100 / 12 \<noteq> 0" "\<not> (?f / 100 / 12 = - 2 \<and> even ?t)"
    "\<not> (?f / 100 / 12 = - 1 \<and> ?t < 0)" by linarith+
  from emi_formula_ok [OF assms(3) this] obtain e where e: "emi_formula ?a (?f / 100 / 12) ?t = Inr e"
    by blast
  have "?b / 100 / 12 \<noteq> 0" "\<not> (?b / 100 / 12 = - 2 \<and> even ?t)"
    "\<not> (?b / 100 / 12 = - 1 \<and> ?t < 0)" using assms(2,4,5) by auto
  from emi_formula_ok [OF assms(3) this] obtain e' where e': "emi_formula ?a (?b / 100 / 12) ?t = Inr e'"
    by blast
  from assms(1,2) e e' show ?thesis
    by (simp add: calculate_dynamic_pricing_def Let_def)
qed

lemmas eval_defs =
  example_profile_def worst_case_profile_def best_case_profile_def no_rate_profile_def
  empty_customer_data_def dict_get_def
  resolve_loan_amount_def resolve_tenure_def resolve_interest_rate_def
  pricing_rate_adjustment_def pricing_factors_def initial_factors_def factor_defs

lemma example_values:
  "resolve_loan_amount example_profile 0 = 500000"
  "resolve_tenure example_profile 0 = 24"
  "resolve_interest_rate example_profile = 10.5"
  "pricing_rate_adjustment example_profile 0 0 = - 2"
  by (simp_all add: eval_defs)

lemma worst_case_values:
  "resolve_loan_amount worst_case_profile 0 = 100000"
  "resolve_tenure worst_case_profile 0 = 60"
  "resolve_interest_rate worst_case_profile = 17"
  "pricing_rate_adjustment worst_case_profile 0 0 = 2.05"
  by (simp_all add: eval_defs)

lemma best_case_values:
  "resolve_loan_amount best_case_profile 0 = 500000"
  "resolve_tenure best_case_profile 0 = 24"
  "resolve_interest_rate best_case_profile = 8.5"
  "pricing_rate_adjustment best_case_profile 0 0 = - 0.55"
  by (simp_all add: eval_defs)




section \<open>Properties of calculate_dynamic_pricing\<close>

text \<open>
  Claim C1. Whenever the dynamic pricing engine returns a pricing analysis, for any
  profile and any request, its final interest rate lies in the closed interval from 8.0
  to 18.0. The base rate of the analysis is the profile's (12.0 when absent) and its
  adjustment is the result of the scoring pass; when base rate plus adjustment is 18 or
  more the final rate is exactly 18.0, and when it is 8 or less the final rate is
  exactly 8.0.
\<close>

theorem final_rate_clamped:
  assumes "calculate_dynamic_pricing cd la rt = PricingAnalysis res"
  shows "8 \<le> pr_final_interest_rate res \<and> pr_final_interest_rate res \<le> 18
         \<and> pr_base_interest_rate res = resolve_interest_rate cd
         \<and> pr_rate_adjustment res = pricing_rate_adjustment cd la rt
         \<and> (18 \<le> pr_base_interest_rate res + pr_rate_adjustment res
              \<longrightarrow> pr_final_interest_rate res = 18)
         \<and> (pr_base_interest_rate res + pr_rate_adjustment res \<le> 8
              \<longrightarrow> pr_final_interest_rate res = 8)"
  unfolding pricing_analysis_fields(1,2,3) [OF assms] by auto


theorem final_rate_clamped_witness:
  "(\<exists>res. calculate_dynamic_pricing worst_case_profile 0 0 = PricingAnalysis res
       \<and> 18 \<le> pr_base_interest_rate res + pr_rate_adjustment res
       \<and> 8 \<le> pr_final_interest_rate res \<and> pr_final_interest_rate res \<le> 18
       \<and> pr_final_interest_rate res = 18)
   \<and> (\<exists>res. calculate_dynamic_pricing best_case_profile 0 0 = PricingAnalysis res
       \<and> pr_base_interest_rate res + pr_rate_adjustment res \<le> 8
       \<and> 8 \<le> pr_final_interest_rate res \<and> pr_final_interest_rate res \<le> 18
       \<and> pr_final_interest_rate res = 8)"
proof -
  obtain w where w: "calculate_dynamic_pricing worst_case_profile 0 0 = PricingAnalysis w"
    using pricing_returns_analysis [of worst_case_profile 0 0] by (auto simp add: worst_case_values)
  obtain b where b: "calculate_dynamic_pricing best_case_profile 0 0 = PricingAnalysis b"
    using pricing_returns_analysis [of best_case_profile 0 0] by (auto simp add: best_case_values)
  have "18 \<le> pr_base_interest_rate w + pr_rate_adjustment w"
    by (simp add: pricing_analysis_fields(2,3) [OF w] worst_case_values)
  moreover have "pr_base_interest_rate b + pr_rate_adjustment b \<le> 8"
    by (simp add: pricing_analysis_fields(2,3) [OF b] best_case_values)
  ultimately show ?thesis
    using final_rate_clamped [OF w] final_rate_clamped [OF b] w b by simp
qed

text \<open>
  Claim C3, as stated, at the example profile with an empty request: the scoring pass
  would give a rate adjustment of -2.3 and the clamp a final rate of 8.2.
\<close>

theorem example_rate_adjustment_counterexample:
  "\<not> (pricing_rate_adjustment example_profile 0 0 = - 2.3
      \<and> max 8.0 (min 18.0 (resolve_interest_rate example_profile
                            + pricing_rate_adjustment example_profile 0 0)) = 8.2)"
  by (simp add: example_values)

text \<open>
  Claim C3, amended. For the example profile and an empty request the engine returns a
  pricing analysis whose rate adjustment is -2.0 (account age -0.5, salary account -0.3,
  balance -0.4, credit score -0.5, default loan history "good" -0.1, income of 90000
  -0.1, no existing loans -0.1) and whose final interest rate is 10.5 - 2.0 = 8.5.
\<close>

theorem example_rate_adjustment:
  "\<exists>res. calculate_dynamic_pricing example_profile 0 0 = PricingAnalysis res
         \<and> pr_rate_adjustment res = - 2.0 \<and> pr_final_interest_rate res = 8.5"
proof -
  obtain res where r: "calculate_dynamic_pricing example_profile 0 0 = PricingAnalysis res"
    using pricing_returns_analysis [of example_profile 0 0] by (auto simp add: example_values)
  show ?thesis
    using r by (simp add: pricing_analysis_fields(1,3) [OF r] example_values)
qed





text \<open>
  Claim C6. With every other profile field and the request fixed, raising the credit
  score across a tier boundary (649 to 650, 699 to 700, 749 to 750, 799 to 800) never
  increases the rate adjustment of the scoring pass.
\<close>

theorem credit_tier_boundaries_monotone:
  "pricing_rate_adjustment (cd\<lparr>cd_credit_score := Some 650\<rparr>) la rt
     \<le> pricing_rate_adjustment (cd\<lparr>cd_credit_score := Some 649\<rparr>) la rt
   \<and> pricing_rate_adjustment (cd\<lparr>cd_credit_score := Some 700\<rparr>) la rt
     \<le> pricing_rate_adjustment (cd\<lparr>cd_credit_score := Some 699\<rparr>) la rt
   \<and> pricing_rate_adjustment (cd\<lparr>cd_credit_score := Some 750\<rparr>) la rt
     \<le> pricing_rate_adjustment (cd\<lparr>cd_credit_score := Some 749\<rparr>) la rt
   \<and> pricing_rate_adjustment (cd\<lparr>cd_credit_score := Some 800\<rparr>) la rt
     \<le> pricing_rate_adjustment (cd\<lparr>cd_credit_score := Some 799\<rparr>) la rt"
  unfolding pricing_rate_adjustment_def rate_adjustment_sum credit_update_other credit_tier_delta
  by simp



section \<open>Properties of calculate_loan_savings\<close>











end
